theory Spec2Isabelle
  imports Main
begin

section \<open>JavaScript values\<close>

text \<open>
  The editor document is plain JSON whose attribute bags are typed
  \<^verbatim>\<open>Record<string, any>\<close>. An attribute value is modelled by the scalars of
  JavaScript. Of a number the code observes two things only, whether it is falsy
  and the string it converts to, so a number is one of: zero (\<open>JZero\<close>, the
  numbers +0 and -0, falsy, printed 0), NaN (\<open>JNaN\<close>, falsy, printed NaN), or any
  other number (\<open>JNumber\<close>, truthy), given by the string that the platform's
  \<^verbatim>\<open>Number::toString\<close> prints for it: 5 is \<open>JNumber ''5''\<close> and 1e21 is
  \<open>JNumber ''1e+21''\<close>. That printing is the platform's and is not computed
  here; two numbers are the same value exactly when they are the same here.
  Objects and arrays as attribute values are left out. A string is a list of
  characters, a character standing for a code unit below 256.
\<close>

datatype js_value =
    JUndefined
  | JNull
  | JBoolean bool
  | JZero
  | JNaN
  | JNumber string
  | JString string

text \<open>ToBoolean: what \<^verbatim>\<open>||\<close> and \<^verbatim>\<open>if\<close> test.\<close>

fun truthy :: "js_value \<Rightarrow> bool" where
  "truthy JUndefined = False"
| "truthy JNull = False"
| "truthy (JBoolean b) = b"
| "truthy JZero = False"
| "truthy JNaN = False"
| "truthy (JNumber printed) = True"
| "truthy (JString s) = (s \<noteq> [])"

text \<open>ToString: what a template literal \<^verbatim>\<open>`${v}`\<close> inserts.\<close>

fun ToString :: "js_value \<Rightarrow> string" where
  "ToString JUndefined = ''undefined''"
| "ToString JNull = ''null''"
| "ToString (JBoolean b) = (if b then ''true'' else ''false'')"
| "ToString JZero = ''0''"
| "ToString JNaN = ''NaN''"
| "ToString (JNumber printed) = printed"
| "ToString (JString s) = s"

text \<open>
  \<^verbatim>\<open>String.prototype.trim\<close>: the white space and line terminators of ECMAScript
  among the code units below 256 are TAB, LF, VT, FF, CR, SP and NBSP.
\<close>

definition isWhiteSpace :: "char \<Rightarrow> bool" where
  "isWhiteSpace c =
     (c = CHR 0x09 \<or> c = CHR 0x0A \<or> c = CHR 0x0B \<or> c = CHR 0x0C \<or>
      c = CHR 0x0D \<or> c = CHR 0x20 \<or> c = CHR 0xA0)"

definition trim :: "string \<Rightarrow> string" where
  "trim s = rev (dropWhile isWhiteSpace (rev (dropWhile isWhiteSpace s)))"

section \<open>The editor document (JSONContent)\<close>

type_synonym attrs = "(string \<times> js_value) list"

record Mark =
  mark_type :: string
  mark_attrs :: "attrs option"

text \<open>
  Every field of \<^verbatim>\<open>JSONContent\<close> is optional: \<open>None\<close> is an absent
  (undefined) field. \<open>text_of\<close> is the field \<^verbatim>\<open>text\<close>.
\<close>

datatype JSONContent =
  JSONContent (type: "string option") (attrs: "attrs option")
    (content: "JSONContent list option") (marks: "Mark list option")
    (text_of: "string option")

text \<open>\<^verbatim>\<open>bag?.key\<close>: undefined when the bag or the key is absent.\<close>

definition attr :: "attrs option \<Rightarrow> string \<Rightarrow> js_value" where
  "attr bag key =
     (case bag of
        None \<Rightarrow> JUndefined
      | Some kvs \<Rightarrow> (case map_of kvs key of None \<Rightarrow> JUndefined | Some v \<Rightarrow> v))"

fun editorJsonToText :: "JSONContent \<Rightarrow> string" where
  "editorJsonToText (JSONContent ty at co ma tx) =
     (if ty = Some ''doc'' \<or> ty = Some ''paragraph'' then
        (case co of
           None \<Rightarrow> []
         | Some nodes \<Rightarrow>
             if length nodes \<noteq> 0
             then foldl (\<lambda>text node. text @ editorJsonToText node) [] nodes
             else []) @ ''\<newline>''
      else if ty = Some ''hardBreak'' then ''\<newline>''
      else if ty = Some ''text'' then
        (case tx of None \<Rightarrow> [] | Some s \<Rightarrow> if s \<noteq> [] then s else [])
      else if ty = Some ''mention'' then
        CHR ''@'' # (let id = attr at ''id'' in if truthy id then ToString id else [])
      else [])"

fun editorJsonToLinks :: "JSONContent \<Rightarrow> js_value list" where
  "editorJsonToLinks (JSONContent ty at co ma tx) =
     (let links =
            (case co of
               None \<Rightarrow> []
             | Some nodes \<Rightarrow>
                 if length nodes \<noteq> 0
                 then foldl (\<lambda>links node. links @ editorJsonToLinks node) [] nodes
                 else []);
          link =
            (case ma of
               None \<Rightarrow> None
             | Some ms \<Rightarrow> find (\<lambda>m. mark_type m = ''link'') ms)
      in case link of
           None \<Rightarrow> links
         | Some m \<Rightarrow>
             if truthy (attr (mark_attrs m) ''href'')
             then links @ [attr (mark_attrs m) ''href'']
             else links)"

text \<open>The children of a node, an absent \<^verbatim>\<open>content\<close> being no children.\<close>

definition children :: "JSONContent \<Rightarrow> JSONContent list" where
  "children json = (case content json of None \<Rightarrow> [] | Some nodes \<Rightarrow> nodes)"

definition marks_of :: "JSONContent \<Rightarrow> Mark list" where
  "marks_of json = (case marks json of None \<Rightarrow> [] | Some ms \<Rightarrow> ms)"

text \<open>
  What a node adds of its own to the links: the \<^verbatim>\<open>href\<close> of its first mark
  of type link, when that value is truthy.
\<close>

definition first_link_href :: "JSONContent \<Rightarrow> js_value list" where
  "first_link_href json =
     (case filter (\<lambda>m. mark_type m = ''link'') (marks_of json) of
        [] \<Rightarrow> []
      | m # _ \<Rightarrow>
          if truthy (attr (mark_attrs m) ''href'') then [attr (mark_attrs m) ''href'']
          else [])"

text \<open>
  The specification's wording, to be compared with the code: a node adds the
  \<^verbatim>\<open>href\<close> of each of its marks of type link that has a truthy one.
\<close>

definition hrefs_of_link_marks :: "JSONContent \<Rightarrow> js_value list" where
  "hrefs_of_link_marks json =
     map (\<lambda>m. attr (mark_attrs m) ''href'')
       (filter (\<lambda>m. mark_type m = ''link'' \<and> truthy (attr (mark_attrs m) ''href''))
          (marks_of json))"

text \<open>
  The specification's wording for a mention: its \<^verbatim>\<open>attrs.id\<close> is absent
  (undefined or null) or empty (the empty string).
\<close>

definition absent_or_empty :: "js_value \<Rightarrow> bool" where
  "absent_or_empty v = (v = JUndefined \<or> v = JNull \<or> v = JString [])"

section \<open>The rich text object handed to the application\<close>

text \<open>
  \<^verbatim>\<open>RichText\<close> belongs to an external library. Of it the component uses the
  constructor, which stores the text and leaves the facets unset, and
  \<^verbatim>\<open>detectFacetsWithoutResolution\<close>, which stores the facets the library detects
  in the text. The detection itself is a parameter \<open>detectFacets\<close>, \<open>'f\<close> being
  the library's facets. \<open>rt_text\<close> is the field \<^verbatim>\<open>text\<close>.
\<close>

record 'f RichText =
  rt_text :: string
  facets :: "'f option"

definition new_RichText :: "string \<Rightarrow> 'f RichText" where
  "new_RichText t = \<lparr>rt_text = t, facets = None\<rparr>"

definition detectFacetsWithoutResolution ::
  "(string \<Rightarrow> 'f) \<Rightarrow> 'f RichText \<Rightarrow> 'f RichText" where
  "detectFacetsWithoutResolution detectFacets rt =
     rt\<lparr>facets := Some (detectFacets (rt_text rt))\<rparr>"

section \<open>The update handler\<close>

text \<open>
  The calls of callback props that \<^verbatim>\<open>onUpdate\<close> makes, in order. A
  \<^verbatim>\<open>Set\<close> of attribute values is a set; lodash's \<^verbatim>\<open>isEqual\<close> on two
  such sets is their equality. \<open>suggestedLinks\<close> is the value of the prop that the
  handler sees.
\<close>

datatype 'f prop_call =
    setRichText "'f RichText"
  | onSuggestedLinksChanged "js_value set"

definition onUpdate ::
  "(string \<Rightarrow> 'f) \<Rightarrow> js_value set \<Rightarrow> JSONContent \<Rightarrow> 'f prop_call list" where
  "onUpdate detectFacets suggestedLinks json =
     (let newRt = detectFacetsWithoutResolution detectFacets
                    (new_RichText (trim (editorJsonToText json)));
          newSuggestedLinks = set (editorJsonToLinks json)
      in setRichText newRt #
         (if newSuggestedLinks \<noteq> suggestedLinks
          then [onSuggestedLinksChanged newSuggestedLinks]
          else []))"

text \<open>The arguments of the calls of one callback prop, in order.\<close>

fun setRichText_calls :: "'f prop_call list \<Rightarrow> 'f RichText list" where
  "setRichText_calls [] = []"
| "setRichText_calls (setRichText rt # calls) = rt # setRichText_calls calls"
| "setRichText_calls (_ # calls) = setRichText_calls calls"

fun onSuggestedLinksChanged_calls :: "'f prop_call list \<Rightarrow> js_value set list" where
  "onSuggestedLinksChanged_calls [] = []"
| "onSuggestedLinksChanged_calls (onSuggestedLinksChanged uris # calls) =
     uris # onSuggestedLinksChanged_calls calls"
| "onSuggestedLinksChanged_calls (_ # calls) = onSuggestedLinksChanged_calls calls"

section \<open>The event emitter\<close>

text \<open>
  The emitter holds, per event name, the listeners added to it; the listeners of
  this component are two of its callback props. \<^verbatim>\<open>emit\<close> calls every listener
  of the event, in the order they were added, with the arguments given; a call is
  the listener and the argument list it receives.
\<close>

datatype listener = onPressPublish | onPhotoPasted

type_synonym EventEmitter = "(string \<times> listener) list"

definition new_EventEmitter :: EventEmitter where
  "new_EventEmitter = []"

definition addListener :: "EventEmitter \<Rightarrow> string \<Rightarrow> listener \<Rightarrow> EventEmitter" where
  "addListener emitter event fn = emitter @ [(event, fn)]"

definition removeListener :: "EventEmitter \<Rightarrow> string \<Rightarrow> listener \<Rightarrow> EventEmitter" where
  "removeListener emitter event fn = filter (\<lambda>l. l \<noteq> (event, fn)) emitter"

definition emit :: "EventEmitter \<Rightarrow> string \<Rightarrow> string list \<Rightarrow> (listener \<times> string list) list" where
  "emit emitter event args =
     map (\<lambda>l. (snd l, args)) (filter (\<lambda>l. fst l = event) emitter)"

text \<open>The emitter once the two effects of the component have run.\<close>

definition mounted :: EventEmitter where
  "mounted =
     addListener (addListener new_EventEmitter ''publish'' onPressPublish)
       ''photo-pasted'' onPhotoPasted"

text \<open>
  The parameter a JavaScript function reads at position \<open>i\<close> of the arguments it
  is called with: \<open>None\<close> is \<^verbatim>\<open>undefined\<close>.
\<close>

definition parameter :: "'a list \<Rightarrow> nat \<Rightarrow> 'a option" where
  "parameter args i = (if i < length args then Some (args ! i) else None)"

text \<open>
  What a handler of the editor does: it emits an event, logs an error to the
  console, or leaves a rejected promise unhandled. \<open>'e\<close> is the errors of the
  platform.
\<close>

datatype 'e effect =
    Emit string "string list"
  | ConsoleError 'e
  | UnhandledRejection 'e

fun deliver :: "EventEmitter \<Rightarrow> 'e effect list \<Rightarrow> (listener \<times> string list) list" where
  "deliver emitter [] = []"
| "deliver emitter (Emit event args # effects) =
     emit emitter event args @ deliver emitter effects"
| "deliver emitter (_ # effects) = deliver emitter effects"

section \<open>The keyboard shortcut\<close>

record KeyboardEvent =
  metaKey :: bool
  ctrlKey :: bool
  code :: string

definition handleKeyDown :: "KeyboardEvent \<Rightarrow> 'e effect list" where
  "handleKeyDown event =
     (if (metaKey event \<or> ctrlKey event) \<and> code event = ''Enter''
      then [Emit ''publish'' []]
      else [])"

section \<open>Pasting\<close>

text \<open>
  A blob is its bytes and its media type. A clipboard item is its
  \<^verbatim>\<open>kind\<close>, its \<^verbatim>\<open>type\<close> (\<open>item_type\<close>), the string that
  \<^verbatim>\<open>getAsString\<close> hands to its callback (\<open>None\<close>: the item holds no string
  and the callback is never called) and the file that \<^verbatim>\<open>getAsFile\<close> returns
  (\<open>None\<close>: null). An absent \<open>clipboardData\<close> is \<open>None\<close>.
\<close>

record Blob =
  blob_data :: string
  blob_type :: string

record DataTransferItem =
  kind :: string
  item_type :: string
  getAsString :: "string option"
  getAsFile :: "Blob option"

record DataTransfer =
  items :: "DataTransferItem list"

record ClipboardEvent =
  clipboardData :: "DataTransfer option"

text \<open>
  What the handler calls outside this file: \<^verbatim>\<open>isUriImage\<close> and
  \<^verbatim>\<open>blobToDataUri\<close> of the media utilities, \<^verbatim>\<open>fetch\<close> and the
  \<^verbatim>\<open>blob()\<close> of its response. A promise that rejects is \<open>Inl\<close> the error.
\<close>

record ('e, 'r) Platform =
  isUriImage :: "string \<Rightarrow> bool"
  fetch :: "string \<Rightarrow> 'e + 'r"
  response_blob :: "'r \<Rightarrow> 'e + Blob"
  blobToDataUri :: "Blob \<Rightarrow> 'e + string"

text \<open>
  The effects are listed in the order the loop starts them; the promises settle
  later, in an order the platform decides.
\<close>

fun getImageFromUri ::
  "('e, 'r) Platform \<Rightarrow> DataTransferItem list \<Rightarrow> (string \<Rightarrow> 'e effect list) \<Rightarrow> 'e effect list"
where
  "getImageFromUri P [] callback = []"
| "getImageFromUri P (item # rest) callback =
     (if item_type item = ''text/plain'' then
        (case getAsString item of
           None \<Rightarrow> []
         | Some itemString \<Rightarrow>
             if isUriImage P itemString then
               (case fetch P itemString of
                  Inl err \<Rightarrow> [UnhandledRejection err]
                | Inr response \<Rightarrow>
                    (case response_blob P response of
                       Inl err \<Rightarrow> [UnhandledRejection err]
                     | Inr blob \<Rightarrow>
                         (case blobToDataUri P blob of
                            Inl err \<Rightarrow> [ConsoleError err]
                          | Inr uri \<Rightarrow> callback uri)))
             else [])
      else [])
     @
     (if kind item = ''file'' then
        (case getAsFile item of
           None \<Rightarrow> []
         | Some file \<Rightarrow>
             (case blobToDataUri P \<lparr>blob_data = blob_data file, blob_type = item_type item\<rparr> of
                Inl err \<Rightarrow> [ConsoleError err]
              | Inr uri \<Rightarrow> callback uri))
      else [])
     @ getImageFromUri P rest callback"

definition handlePaste :: "('e, 'r) Platform \<Rightarrow> ClipboardEvent \<Rightarrow> 'e effect list" where
  "handlePaste P event =
     (case clipboardData event of
        None \<Rightarrow> []
      | Some data \<Rightarrow> getImageFromUri P (items data) (\<lambda>uri. [Emit ''photo-pasted'' [uri]]))"

text \<open>
  The two ways an item yields a data URI: its string content is recognised as an
  image URI, fetched and converted; its file is converted under the item's type.
\<close>

definition string_image :: "('e, 'r) Platform \<Rightarrow> DataTransferItem \<Rightarrow> string \<Rightarrow> bool" where
  "string_image P item uri =
     (item_type item = ''text/plain'' \<and>
      (case getAsString item of
         None \<Rightarrow> False
       | Some itemString \<Rightarrow>
           isUriImage P itemString \<and>
           (case fetch P itemString of
              Inl err \<Rightarrow> False
            | Inr response \<Rightarrow>
                (case response_blob P response of
                   Inl err \<Rightarrow> False
                 | Inr blob \<Rightarrow> blobToDataUri P blob = Inr uri))))"

definition file_image :: "('e, 'r) Platform \<Rightarrow> DataTransferItem \<Rightarrow> string \<Rightarrow> bool" where
  "file_image P item uri =
     (kind item = ''file'' \<and>
      (case getAsFile item of
         None \<Rightarrow> False
       | Some file \<Rightarrow>
           blobToDataUri P \<lparr>blob_data = blob_data file, blob_type = item_type item\<rparr>
             = Inr uri))"

text \<open>
  An example platform for the concrete cases: one image URI is known, its fetch
  answers with a PNG, and a blob converts to a data URI unless it cannot be read.
\<close>

definition example_platform :: "bool \<Rightarrow> (string, Blob) Platform" where
  "example_platform readable =
     \<lparr>isUriImage = (\<lambda>uri. uri = ''https://example.com/cat.png''),
      fetch = (\<lambda>uri. if uri = ''https://example.com/cat.png''
                      then Inr \<lparr>blob_data = ''PNG'', blob_type = ''image/png''\<rparr>
                      else Inl ''TypeError''),
      response_blob = Inr,
      blobToDataUri = (\<lambda>blob. if readable
                               then Inr (''data:'' @ blob_type blob @ '','' @ blob_data blob)
                               else Inl ''NotReadableError'')\<rparr>"

section \<open>The editor's extensions\<close>

record LinkOptions =
  protocols :: "string list"
  autolink :: bool
  linkOnPaste :: bool

datatype extension =
    Document
  | Link LinkOptions
  | Mention
  | Paragraph
  | Placeholder string
  | Text
  | History
  | Hardbreak

definition extensions :: "string \<Rightarrow> extension list" where
  "extensions placeholder =
     [Document,
      Link \<lparr>protocols = [''http'', ''https''], autolink = True, linkOnPaste = False\<rparr>,
      Mention,
      Paragraph,
      Placeholder placeholder,
      Text,
      History,
      Hardbreak]"

fun link_options :: "extension list \<Rightarrow> LinkOptions list" where
  "link_options [] = []"
| "link_options (Link opts # exts) = opts # link_options exts"
| "link_options (_ # exts) = link_options exts"

section \<open>The imperative handle\<close>

text \<open>
  A method of the handle takes the state it runs in, whatever that is, to the
  state it leaves and the effects it has.
\<close>

record ('s, 'e) TextInputRef =
  focus :: "'s \<Rightarrow> 's \<times> 'e effect list"
  blur :: "'s \<Rightarrow> 's \<times> 'e effect list"

definition useImperativeHandle :: "('s, 'e) TextInputRef" where
  "useImperativeHandle = \<lparr>focus = (\<lambda>s. (s, [])), blur = (\<lambda>s. (s, []))\<rparr>"

section \<open>The two converters\<close>

text \<open>The loops of both converters append the conversions of the children, in order.\<close>

lemma foldl_append_concat:
  "foldl (\<lambda>acc x. acc @ f x) a xs = a @ concat (map f xs)"
  by (induction xs arbitrary: a) simp_all

text \<open>
  C1 (as amended). For every node, \<open>editorJsonToText\<close> returns: the conversions
  of its children, concatenated in order, then a newline, when its type is doc or
  paragraph; a newline when it is hardBreak; its text field, or the empty string
  when the field is absent, when it is text; when it is mention, the character @
  followed by the string conversion of \<^verbatim>\<open>attrs.id\<close> if that value is truthy, and
  @ alone if it is falsy (absent, null, false, 0, NaN or the empty string); the
  empty string for every other type.
\<close>

theorem editorJsonToText_cases:
  "editorJsonToText json =
     (if type json = Some ''doc'' \<or> type json = Some ''paragraph''
      then concat (map editorJsonToText (children json)) @ ''\<newline>''
      else if type json = Some ''hardBreak'' then ''\<newline>''
      else if type json = Some ''text''
        then (case text_of json of None \<Rightarrow> [] | Some s \<Rightarrow> s)
      else if type json = Some ''mention''
        then (if truthy (attr (attrs json) ''id'')
              then CHR ''@'' # ToString (attr (attrs json) ''id'')
              else ''@'')
      else [])"
proof (cases json)
  case (JSONContent ty at co ma tx)
  have kids: "(case co of None \<Rightarrow> [] | Some nodes \<Rightarrow>
                 if length nodes \<noteq> 0
                 then foldl (\<lambda>text node. text @ editorJsonToText node) [] nodes
                 else [])
              = concat (map editorJsonToText (children json))"
    by (simp add: JSONContent children_def foldl_append_concat split: option.split)
  have tfield: "(case tx of None \<Rightarrow> [] | Some s \<Rightarrow> if s \<noteq> [] then s else [])
              = (case tx of None \<Rightarrow> [] | Some s \<Rightarrow> s)"
    by (simp split: option.split)
  show ?thesis
    unfolding JSONContent editorJsonToText.simps kids [unfolded JSONContent] tfield
    by (simp add: Let_def)
qed

text \<open>
  For an id that is a string, or absent, this is the specification's wording: @
  alone when the id is absent or empty, @ followed by the id otherwise.
\<close>

lemma mention_string_or_absent_id:
  "v = JUndefined \<or> v = JNull \<or> v = JString s \<Longrightarrow>
   (if truthy v then CHR ''@'' # ToString v else ''@'') =
   (if absent_or_empty v then ''@'' else CHR ''@'' # ToString v)"
  by (auto simp: absent_or_empty_def)

text \<open>
  C1 as stated fails for a mention whose \<^verbatim>\<open>attrs.id\<close> is the number 0: the id
  is neither absent nor empty, and the result is @ alone, not @0.
\<close>

theorem mention_counterexample:
  "\<not> absent_or_empty (attr (Some [(''id'', JZero)]) ''id'') \<and>
   editorJsonToText (JSONContent (Some ''mention'') (Some [(''id'', JZero)]) None None None)
     \<noteq> CHR ''@'' # ToString (attr (Some [(''id'', JZero)]) ''id'')"
  by (simp add: absent_or_empty_def attr_def)

text \<open>
  C1 at a document with one paragraph: a text, a mention of a handle, a break,
  mentions whose ids are the numbers 0 and 1e21, and a node of an unknown type.
\<close>

theorem editorJsonToText_cases_witness:
  "editorJsonToText
     (JSONContent (Some ''doc'') None
        (Some [JSONContent (Some ''paragraph'') None
                 (Some [JSONContent (Some ''text'') None None None (Some ''hi ''),
                        JSONContent (Some ''mention'') (Some [(''id'', JString ''bob.test'')]) None None None,
                        JSONContent (Some ''hardBreak'') None None None None,
                        JSONContent (Some ''mention'') (Some [(''id'', JZero)]) None None None,
                        JSONContent (Some ''mention'') (Some [(''id'', JNumber ''1e+21'')]) None None None,
                        JSONContent (Some ''image'') None None None None])
                 None None])
        None None)
   = ''hi @bob.test\<newline>@@1e+21\<newline>\<newline>''"
  by (simp add: editorJsonToText_cases children_def attr_def del: editorJsonToText.simps)


text \<open>\<^verbatim>\<open>Array.prototype.find\<close> returns the first match.\<close>

lemma find_filter:
  "find P xs = (case filter P xs of [] \<Rightarrow> None | x # _ \<Rightarrow> Some x)"
  by (induction xs) simp_all

text \<open>
  C3 (as amended). For every node, \<open>editorJsonToLinks\<close> returns the links of its
  children, in order, followed by the node's own link: only the first mark of type
  link of the node counts, and it adds its \<^verbatim>\<open>attrs.href\<close> when that value is
  truthy; a node with no mark of type link, or whose first one has no truthy
  \<^verbatim>\<open>href\<close>, adds no entry.
\<close>

theorem editorJsonToLinks_children_first:
  "editorJsonToLinks json =
     concat (map editorJsonToLinks (children json)) @ first_link_href json"
proof (cases json)
  case (JSONContent ty at co ma tx)
  have kids: "(case co of None \<Rightarrow> [] | Some nodes \<Rightarrow>
                 if length nodes \<noteq> 0
                 then foldl (\<lambda>links node. links @ editorJsonToLinks node) [] nodes
                 else [])
              = concat (map editorJsonToLinks (children json))"
    by (simp add: JSONContent children_def foldl_append_concat split: option.split)
  have own: "(case ma of None \<Rightarrow> None | Some ms \<Rightarrow> find (\<lambda>m. mark_type m = ''link'') ms)
              = (case filter (\<lambda>m. mark_type m = ''link'') (marks_of json) of
                   [] \<Rightarrow> None | m # _ \<Rightarrow> Some m)"
    by (simp add: JSONContent marks_of_def find_filter split: option.split)
  show ?thesis
    unfolding JSONContent editorJsonToLinks.simps kids [unfolded JSONContent]
      own [unfolded JSONContent] first_link_href_def
    by (simp add: Let_def split: list.split)
qed

text \<open>
  On a node with at most one mark of type link, this is the specification's
  wording: the \<^verbatim>\<open>href\<close> of its marks of type link that have a truthy one.
\<close>

lemma first_link_href_single:
  "length (filter (\<lambda>m. mark_type m = ''link'') (marks_of json)) \<le> 1 \<Longrightarrow>
   first_link_href json = hrefs_of_link_marks json"
proof -
  assume one: "length (filter (\<lambda>m. mark_type m = ''link'') (marks_of json)) \<le> 1"
  have split_filter:
    "filter (\<lambda>m. mark_type m = ''link'' \<and> truthy (attr (mark_attrs m) ''href'')) ms
     = filter (\<lambda>m. truthy (attr (mark_attrs m) ''href'')) (filter (\<lambda>m. mark_type m = ''link'') ms)"
    for ms :: "Mark list"
    by (simp add: conj_commute)
  show ?thesis
  proof (cases "filter (\<lambda>m. mark_type m = ''link'') (marks_of json)")
    case Nil
    then show ?thesis
      by (simp add: first_link_href_def hrefs_of_link_marks_def split_filter)
  next
    case (Cons m ms)
    with one have "ms = []" by simp
    with Cons show ?thesis
      by (simp add: first_link_href_def hrefs_of_link_marks_def split_filter)
  qed
qed

text \<open>
  C3 as stated fails on a node with two marks of type link, the first without a
  \<^verbatim>\<open>href\<close>: the second has a truthy one and the node adds no entry.
\<close>

theorem editorJsonToLinks_counterexample:
  "hrefs_of_link_marks
     (JSONContent (Some ''text'') None None
        (Some [\<lparr>mark_type = ''link'', mark_attrs = None\<rparr>,
               \<lparr>mark_type = ''link'', mark_attrs = Some [(''href'', JString ''https://bsky.app'')]\<rparr>])
        (Some ''hello''))
     = [JString ''https://bsky.app''] \<and>
   editorJsonToLinks
     (JSONContent (Some ''text'') None None
        (Some [\<lparr>mark_type = ''link'', mark_attrs = None\<rparr>,
               \<lparr>mark_type = ''link'', mark_attrs = Some [(''href'', JString ''https://bsky.app'')]\<rparr>])
        (Some ''hello''))
     = []"
  by (simp add: hrefs_of_link_marks_def marks_of_def attr_def)

text \<open>C3 at a paragraph with a link of its own and three children.\<close>

theorem editorJsonToLinks_children_first_witness:
  "editorJsonToLinks
     (JSONContent (Some ''paragraph'') None
        (Some [JSONContent (Some ''text'') None None
                 (Some [\<lparr>mark_type = ''link'', mark_attrs = Some [(''href'', JString ''https://a.test'')]\<rparr>])
                 (Some ''a''),
               JSONContent (Some ''text'') None None None (Some '' and ''),
               JSONContent (Some ''text'') None None
                 (Some [\<lparr>mark_type = ''bold'', mark_attrs = None\<rparr>,
                        \<lparr>mark_type = ''link'', mark_attrs = Some [(''href'', JString ''https://b.test'')]\<rparr>,
                        \<lparr>mark_type = ''link'', mark_attrs = Some [(''href'', JString ''https://c.test'')]\<rparr>])
                 (Some ''b'')])
        (Some [\<lparr>mark_type = ''link'', mark_attrs = Some [(''href'', JString ''https://p.test'')]\<rparr>])
        None)
   = [JString ''https://a.test'', JString ''https://b.test'', JString ''https://p.test'']"
  by (simp add: editorJsonToLinks_children_first children_def first_link_href_def marks_of_def
      attr_def del: editorJsonToLinks.simps)

section \<open>The handlers and the configuration\<close>

text \<open>
  C2. On every update, \<open>setRichText\<close> is called exactly once. Its argument is the
  rich text constructed from the text of the document, trimmed, on which
  \<open>detectFacetsWithoutResolution\<close> has been called: its text is that trimmed
  text, and its facets are the ones the library detects in it, the component
  adding nothing of its own.
\<close>

theorem onUpdate_setRichText_once:
  "setRichText_calls (onUpdate detectFacets suggestedLinks json) =
     [detectFacetsWithoutResolution detectFacets
        (new_RichText (trim (editorJsonToText json)))] \<and>
   rt_text (detectFacetsWithoutResolution detectFacets
        (new_RichText (trim (editorJsonToText json)))) = trim (editorJsonToText json) \<and>
   facets (detectFacetsWithoutResolution detectFacets
        (new_RichText (trim (editorJsonToText json)))) =
     Some (detectFacets (trim (editorJsonToText json)))"
  by (simp add: onUpdate_def Let_def detectFacetsWithoutResolution_def new_RichText_def)

text \<open>C2 at a document whose text ends in the newlines of its paragraph and of itself.\<close>

theorem onUpdate_setRichText_once_witness:
  "map rt_text
     (setRichText_calls
        (onUpdate length {}
           (JSONContent (Some ''doc'') None
              (Some [JSONContent (Some ''paragraph'') None
                       (Some [JSONContent (Some ''text'') None None None (Some '' hi there'')])
                       None None])
              None None)))
   = [''hi there'']"
  using onUpdate_setRichText_once [of length "{}"
      "JSONContent (Some ''doc'') None
              (Some [JSONContent (Some ''paragraph'') None
                       (Some [JSONContent (Some ''text'') None None None (Some '' hi there'')])
                       None None])
              None None"]
  by (simp add: trim_def isWhiteSpace_def)

text \<open>
  C7. On every update, \<open>onSuggestedLinksChanged\<close> is called, once and with the
  set of the links of the document, if and only if that set differs from the
  \<open>suggestedLinks\<close> prop; when the two are equal it is not called.
\<close>

theorem onUpdate_suggested_links:
  "onSuggestedLinksChanged_calls (onUpdate detectFacets suggestedLinks json) =
     (if set (editorJsonToLinks json) = suggestedLinks then []
      else [set (editorJsonToLinks json)])"
  by (simp add: onUpdate_def Let_def)

text \<open>C7 at a text with one link: a call when no link was suggested, none when it was.\<close>

theorem onUpdate_suggested_links_witness:
  "onSuggestedLinksChanged_calls
     (onUpdate length {}
        (JSONContent (Some ''text'') None None
           (Some [\<lparr>mark_type = ''link'', mark_attrs = Some [(''href'', JString ''https://a.test'')]\<rparr>])
           (Some ''a'')))
     = [{JString ''https://a.test''}] \<and>
   onSuggestedLinksChanged_calls
     (onUpdate length {JString ''https://a.test''}
        (JSONContent (Some ''text'') None None
           (Some [\<lparr>mark_type = ''link'', mark_attrs = Some [(''href'', JString ''https://a.test'')]\<rparr>])
           (Some ''a'')))
     = []"
  using onUpdate_suggested_links [of length "{}"
      "JSONContent (Some ''text'') None None
           (Some [\<lparr>mark_type = ''link'', mark_attrs = Some [(''href'', JString ''https://a.test'')]\<rparr>])
           (Some ''a'')"]
    onUpdate_suggested_links [of length "{JString ''https://a.test''}"
      "JSONContent (Some ''text'') None None
           (Some [\<lparr>mark_type = ''link'', mark_attrs = Some [(''href'', JString ''https://a.test'')]\<rparr>])
           (Some ''a'')"]
  by (simp add: attr_def)

text \<open>
  C4. For every keydown event, the handler emits publish, and with it
  \<open>onPressPublish\<close> is called, if and only if the event has \<open>metaKey\<close> or
  \<open>ctrlKey\<close> set and its code is Enter; otherwise it emits nothing and no
  callback is called.
\<close>

theorem handleKeyDown_publish_iff:
  "(Emit ''publish'' [] \<in> set (handleKeyDown event :: 'e effect list) \<longleftrightarrow>
      (metaKey event \<or> ctrlKey event) \<and> code event = ''Enter'') \<and>
   (onPressPublish \<in> fst ` set (deliver mounted (handleKeyDown event :: 'e effect list)) \<longleftrightarrow>
      (metaKey event \<or> ctrlKey event) \<and> code event = ''Enter'') \<and>
   ((handleKeyDown event :: 'e effect list) = [] \<longleftrightarrow>
      \<not> ((metaKey event \<or> ctrlKey event) \<and> code event = ''Enter'')) \<and>
   (deliver mounted (handleKeyDown event :: 'e effect list) = [] \<longleftrightarrow>
      \<not> ((metaKey event \<or> ctrlKey event) \<and> code event = ''Enter''))"
  by (simp add: handleKeyDown_def mounted_def addListener_def new_EventEmitter_def emit_def)

text \<open>C4 at Ctrl+Enter, at Enter alone and at Ctrl+A.\<close>

theorem handleKeyDown_publish_iff_witness:
  "Emit ''publish'' [] \<in>
     set (handleKeyDown \<lparr>metaKey = False, ctrlKey = True, code = ''Enter''\<rparr> :: unit effect list) \<and>
   onPressPublish \<in> fst ` set (deliver mounted
     (handleKeyDown \<lparr>metaKey = False, ctrlKey = True, code = ''Enter''\<rparr> :: unit effect list)) \<and>
   (handleKeyDown \<lparr>metaKey = False, ctrlKey = False, code = ''Enter''\<rparr> :: unit effect list) = [] \<and>
   (handleKeyDown \<lparr>metaKey = False, ctrlKey = True, code = ''KeyA''\<rparr> :: unit effect list) = []"
  using handleKeyDown_publish_iff
      [where event = "\<lparr>metaKey = False, ctrlKey = True, code = ''Enter''\<rparr>" and ?'e = unit]
    handleKeyDown_publish_iff
      [where event = "\<lparr>metaKey = False, ctrlKey = False, code = ''Enter''\<rparr>" and ?'e = unit]
    handleKeyDown_publish_iff
      [where event = "\<lparr>metaKey = False, ctrlKey = True, code = ''KeyA''\<rparr>" and ?'e = unit]
  by simp

text \<open>
  C8. Whatever the keydown event and whatever the listeners of the emitter,
  publish is emitted with no argument and every call made has an empty argument
  list, so that the first parameter of the listener is undefined; with the
  shortcut pressed and the component mounted, the call of \<open>onPressPublish\<close> with
  no argument is the one call made.
\<close>

theorem publish_without_argument:
  "set (handleKeyDown event :: 'e effect list) \<subseteq> {Emit ''publish'' []} \<and>
   list_all (\<lambda>call. snd call = [] \<and> parameter (snd call) 0 = None)
     (deliver emitter (handleKeyDown event :: 'e effect list)) \<and>
   (if (metaKey event \<or> ctrlKey event) \<and> code event = ''Enter''
    then deliver mounted (handleKeyDown event :: 'e effect list) = [(onPressPublish, [])]
    else deliver mounted (handleKeyDown event :: 'e effect list) = [])"
  by (simp add: handleKeyDown_def mounted_def addListener_def new_EventEmitter_def emit_def
      parameter_def list_all_iff)

text \<open>C8 at Meta+Enter.\<close>

theorem publish_without_argument_witness:
  "deliver mounted
     (handleKeyDown \<lparr>metaKey = True, ctrlKey = False, code = ''Enter''\<rparr> :: unit effect list)
     = [(onPressPublish, [])] \<and>
   list_all (\<lambda>call. snd call = [] \<and> parameter (snd call) 0 = None)
     (deliver mounted
        (handleKeyDown \<lparr>metaKey = True, ctrlKey = False, code = ''Enter''\<rparr> :: unit effect list))"
  using publish_without_argument
    [where event = "\<lparr>metaKey = True, ctrlKey = False, code = ''Enter''\<rparr>"
       and emitter = mounted and ?'e = unit]
  by (simp add: parameter_def)

text \<open>
  The options that this file passes to the Link extension, which is all that it
  decides of auto-linking (the part of C6 about the configuration): the editor has
  one Link extension, configured with the protocols http and https, in that order
  and no other, with autolink enabled and link-on-paste disabled. What the
  extension, an external library, detects with these options is not part of this
  file.
\<close>

lemma link_configuration:
  "link_options (extensions placeholder) =
     [\<lparr>protocols = [''http'', ''https''], autolink = True, linkOnPaste = False\<rparr>]"
  by (simp add: extensions_def)

text \<open>
  C9. The \<open>focus\<close> and \<open>blur\<close> of the imperative handle do nothing: in every
  state they leave the state as it is and have no effect.
\<close>

theorem focus_blur_no_ops:
  "focus useImperativeHandle s = (s, []) \<and> blur useImperativeHandle s = (s, [])"
  by (simp add: useImperativeHandle_def)

section \<open>The paste handler\<close>

text \<open>What the loop over the clipboard items emits, item by item.\<close>

lemma getImageFromUri_emits:
  "Emit ''photo-pasted'' [uri] \<in> set (getImageFromUri P its (\<lambda>uri. [Emit ''photo-pasted'' [uri]])) \<longleftrightarrow>
     (\<exists>item \<in> set its. string_image P item uri \<or> file_image P item uri)"
proof (induction its)
  case Nil
  then show ?case by simp
next
  case (Cons item rest)
  have here:
    "Emit ''photo-pasted'' [uri] \<in> set
       (if item_type item = ''text/plain'' then
          (case getAsString item of
             None \<Rightarrow> []
           | Some itemString \<Rightarrow>
               if isUriImage P itemString then
                 (case fetch P itemString of
                    Inl err \<Rightarrow> [UnhandledRejection err]
                  | Inr response \<Rightarrow>
                      (case response_blob P response of
                         Inl err \<Rightarrow> [UnhandledRejection err]
                       | Inr blob \<Rightarrow>
                           (case blobToDataUri P blob of
                              Inl err \<Rightarrow> [ConsoleError err]
                            | Inr uri \<Rightarrow> [Emit ''photo-pasted'' [uri]])))
               else [])
        else [])
     \<longleftrightarrow> string_image P item uri"
    by (cases "item_type item = ''text/plain''"; cases "getAsString item";
        cases "isUriImage P (the (getAsString item))";
        auto simp add: string_image_def split: sum.split)
  have there:
    "Emit ''photo-pasted'' [uri] \<in> set
       (if kind item = ''file'' then
          (case getAsFile item of
             None \<Rightarrow> []
           | Some file \<Rightarrow>
               (case blobToDataUri P \<lparr>blob_data = blob_data file, blob_type = item_type item\<rparr> of
                  Inl err \<Rightarrow> [ConsoleError err]
                | Inr uri \<Rightarrow> [Emit ''photo-pasted'' [uri]]))
        else [])
     \<longleftrightarrow> file_image P item uri"
    by (cases "kind item = ''file''"; cases "getAsFile item";
        auto simp add: file_image_def split: sum.split)
  show ?case
    unfolding getImageFromUri.simps set_append Un_iff here there Cons.IH
    by auto
qed

text \<open>The loop emits nothing but photo-pasted, each time with one argument.\<close>

lemma getImageFromUri_only_photos:
  "Emit ev args \<in> set (getImageFromUri P its (\<lambda>uri. [Emit ''photo-pasted'' [uri]])) \<Longrightarrow>
   ev = ''photo-pasted'' \<and> length args = 1"
proof (induction its)
  case Nil
  then show ?case by simp
next
  case (Cons item rest)
  have here:
    "Emit ev args \<in> set
       (if item_type item = ''text/plain'' then
          (case getAsString item of
             None \<Rightarrow> []
           | Some itemString \<Rightarrow>
               if isUriImage P itemString then
                 (case fetch P itemString of
                    Inl err \<Rightarrow> [UnhandledRejection err]
                  | Inr response \<Rightarrow>
                      (case response_blob P response of
                         Inl err \<Rightarrow> [UnhandledRejection err]
                       | Inr blob \<Rightarrow>
                           (case blobToDataUri P blob of
                              Inl err \<Rightarrow> [ConsoleError err]
                            | Inr uri \<Rightarrow> [Emit ''photo-pasted'' [uri]])))
               else [])
        else [])
     \<Longrightarrow> ev = ''photo-pasted'' \<and> length args = 1"
    by (cases "item_type item = ''text/plain''"; cases "getAsString item";
        cases "isUriImage P (the (getAsString item))";
        simp split: sum.splits)
  have there:
    "Emit ev args \<in> set
       (if kind item = ''file'' then
          (case getAsFile item of
             None \<Rightarrow> []
           | Some file \<Rightarrow>
               (case blobToDataUri P \<lparr>blob_data = blob_data file, blob_type = item_type item\<rparr> of
                  Inl err \<Rightarrow> [ConsoleError err]
                | Inr uri \<Rightarrow> [Emit ''photo-pasted'' [uri]]))
        else [])
     \<Longrightarrow> ev = ''photo-pasted'' \<and> length args = 1"
    by (cases "kind item = ''file''"; cases "getAsFile item"; simp split: sum.splits)
  from Cons.prems show ?case
    unfolding getImageFromUri.simps set_append Un_iff
    using here there Cons.IH by blast
qed

text \<open>Items that are neither of type text/plain nor of kind file have no effect.\<close>

lemma getImageFromUri_neither:
  "list_all (\<lambda>item. item_type item \<noteq> ''text/plain'' \<and> kind item \<noteq> ''file'') its \<Longrightarrow>
   getImageFromUri P its callback = []"
  by (induction its) simp_all

text \<open>The calls that the mounted component makes for the effects of a handler.\<close>

lemma deliver_mounted:
  "(l, args) \<in> set (deliver mounted effects) \<longleftrightarrow>
     (l = onPressPublish \<and> Emit ''publish'' args \<in> set effects) \<or>
     (l = onPhotoPasted \<and> Emit ''photo-pasted'' args \<in> set effects)"
proof (induction effects)
  case Nil
  then show ?case by simp
next
  case (Cons effect effects)
  then show ?case
    by (cases effect)
       (auto simp: mounted_def addListener_def new_EventEmitter_def emit_def)
qed

text \<open>
  C5 (as amended). For every paste event: if its \<open>clipboardData\<close> is absent the
  handler does nothing. Otherwise a data URI is emitted as photo-pasted exactly
  when some clipboard item yields it in one of two independent ways: the item is of
  type text/plain, its string content is recognised by \<open>isUriImage\<close>, and the
  fetch of that content and the conversion of the fetched blob both succeed; or
  the item is of kind file, its payload is a blob, and the conversion of that blob,
  under the item's type, succeeds. Items matching neither case have no effect.
  Nothing but photo-pasted is emitted, each time with one argument, and
  \<open>onPhotoPasted\<close> is called with exactly the arguments emitted.
\<close>

theorem handlePaste_photo_pasted:
  "(clipboardData event = None \<longrightarrow> handlePaste P event = []) \<and>
   (\<forall>data. clipboardData event = Some data \<longrightarrow>
      (\<forall>uri. Emit ''photo-pasted'' [uri] \<in> set (handlePaste P event) \<longleftrightarrow>
         (\<exists>item \<in> set (items data). string_image P item uri \<or> file_image P item uri)) \<and>
      ((\<forall>item \<in> set (items data). item_type item \<noteq> ''text/plain'' \<and> kind item \<noteq> ''file'') \<longrightarrow>
         handlePaste P event = [])) \<and>
   (\<forall>ev args. Emit ev args \<in> set (handlePaste P event) \<longrightarrow>
      ev = ''photo-pasted'' \<and> length args = 1) \<and>
   (\<forall>l args. (l, args) \<in> set (deliver mounted (handlePaste P event)) \<longleftrightarrow>
      l = onPhotoPasted \<and> Emit ''photo-pasted'' args \<in> set (handlePaste P event))"
proof (intro conjI allI impI)
  assume "clipboardData event = None"
  then show "handlePaste P event = []" by (simp add: handlePaste_def)
next
  fix data uri
  assume "clipboardData event = Some data"
  then show "Emit ''photo-pasted'' [uri] \<in> set (handlePaste P event) \<longleftrightarrow>
         (\<exists>item \<in> set (items data). string_image P item uri \<or> file_image P item uri)"
    by (simp add: handlePaste_def getImageFromUri_emits)
next
  fix data
  assume "clipboardData event = Some data"
    and "\<forall>item \<in> set (items data). item_type item \<noteq> ''text/plain'' \<and> kind item \<noteq> ''file''"
  then show "handlePaste P event = []"
    by (simp add: handlePaste_def getImageFromUri_neither list_all_iff)
next
  fix ev args
  assume "Emit ev args \<in> set (handlePaste P event)"
  then have "Emit ev args \<in>
      set (getImageFromUri P (items (the (clipboardData event))) (\<lambda>uri. [Emit ''photo-pasted'' [uri]]))"
    by (cases "clipboardData event") (simp_all add: handlePaste_def)
  then have both: "ev = ''photo-pasted'' \<and> length args = 1"
    by (rule getImageFromUri_only_photos)
  from both show "ev = ''photo-pasted''" by simp
  from both show "length args = 1" by simp
next
  fix l args
  have "Emit ''publish'' args \<notin> set (handlePaste P event)"
  proof
    assume "Emit ''publish'' args \<in> set (handlePaste P event)"
    then have "Emit ''publish'' args \<in>
        set (getImageFromUri P (items (the (clipboardData event))) (\<lambda>uri. [Emit ''photo-pasted'' [uri]]))"
      by (cases "clipboardData event") (simp_all add: handlePaste_def)
    then have "''publish'' = ''photo-pasted''"
      using getImageFromUri_only_photos by blast
    then show False by simp
  qed
  then show "(l, args) \<in> set (deliver mounted (handlePaste P event)) \<longleftrightarrow>
      l = onPhotoPasted \<and> Emit ''photo-pasted'' args \<in> set (handlePaste P event)"
    by (simp add: deliver_mounted)
qed

text \<open>
  C5 as stated fails twice. A file item with a blob payload whose conversion is
  rejected is not emitted: the error goes to the console. And an item of type
  text/plain that is a file is emitted although it has no string content that
  \<open>isUriImage\<close> recognises.
\<close>

theorem handlePaste_counterexample:
  "handlePaste (example_platform False)
     \<lparr>clipboardData = Some \<lparr>items =
        [\<lparr>kind = ''file'', item_type = ''image/png'', getAsString = None,
          getAsFile = Some \<lparr>blob_data = ''PNG'', blob_type = ''image/png''\<rparr>\<rparr>]\<rparr>\<rparr>
     = [ConsoleError ''NotReadableError''] \<and>
   handlePaste (example_platform True)
     \<lparr>clipboardData = Some \<lparr>items =
        [\<lparr>kind = ''file'', item_type = ''text/plain'', getAsString = None,
          getAsFile = Some \<lparr>blob_data = ''hello'', blob_type = ''text/plain''\<rparr>\<rparr>]\<rparr>\<rparr>
     = [Emit ''photo-pasted'' [''data:text/plain,hello'']]"
  by (simp add: handlePaste_def example_platform_def)

text \<open>
  C5 at an event without clipboard data, at a pasted image URI beside an HTML
  fragment, at a pasted image file, and at an HTML fragment alone.
\<close>

theorem handlePaste_photo_pasted_witness:
  "clipboardData \<lparr>clipboardData = None :: DataTransfer option\<rparr> = None \<and>
   handlePaste (example_platform True) \<lparr>clipboardData = None\<rparr> = [] \<and>
   Emit ''photo-pasted'' [''data:image/png,PNG''] \<in> set
     (handlePaste (example_platform True)
        \<lparr>clipboardData = Some \<lparr>items =
           [\<lparr>kind = ''string'', item_type = ''text/plain'',
             getAsString = Some ''https://example.com/cat.png'', getAsFile = None\<rparr>,
            \<lparr>kind = ''string'', item_type = ''text/html'',
             getAsString = Some ''<b>cat</b>'', getAsFile = None\<rparr>]\<rparr>\<rparr>) \<and>
   (onPhotoPasted, [''data:image/jpeg,JPG'']) \<in> set
     (deliver mounted (handlePaste (example_platform True)
        \<lparr>clipboardData = Some \<lparr>items =
           [\<lparr>kind = ''file'', item_type = ''image/jpeg'', getAsString = None,
             getAsFile = Some \<lparr>blob_data = ''JPG'', blob_type = ''''\<rparr>\<rparr>]\<rparr>\<rparr>)) \<and>
   handlePaste (example_platform True)
     \<lparr>clipboardData = Some \<lparr>items =
        [\<lparr>kind = ''string'', item_type = ''text/html'',
          getAsString = Some ''<b>cat</b>'', getAsFile = None\<rparr>]\<rparr>\<rparr> = []"
  using handlePaste_photo_pasted
      [of "\<lparr>clipboardData = None\<rparr>" "example_platform True"]
    handlePaste_photo_pasted
      [of "\<lparr>clipboardData = Some \<lparr>items =
           [\<lparr>kind = ''string'', item_type = ''text/plain'',
             getAsString = Some ''https://example.com/cat.png'', getAsFile = None\<rparr>,
            \<lparr>kind = ''string'', item_type = ''text/html'',
             getAsString = Some ''<b>cat</b>'', getAsFile = None\<rparr>]\<rparr>\<rparr>" "example_platform True"]
    handlePaste_photo_pasted
      [of "\<lparr>clipboardData = Some \<lparr>items =
           [\<lparr>kind = ''file'', item_type = ''image/jpeg'', getAsString = None,
             getAsFile = Some \<lparr>blob_data = ''JPG'', blob_type = ''''\<rparr>\<rparr>]\<rparr>\<rparr>" "example_platform True"]
    handlePaste_photo_pasted
      [of "\<lparr>clipboardData = Some \<lparr>items =
        [\<lparr>kind = ''string'', item_type = ''text/html'',
          getAsString = Some ''<b>cat</b>'', getAsFile = None\<rparr>]\<rparr>\<rparr>" "example_platform True"]
  by (simp add: string_image_def file_image_def example_platform_def)

end
